theory Spec2Isabelle
  imports Complex_Main
begin

section \<open>Tensor elements\<close>

text \<open>
  The bounds and the arguments of a constraint are tensors of the numeric library.
  An element is modelled as an exact real number, one of the two infinities or
  not-a-number: arithmetic is the IEEE arithmetic of the library without rounding
  (a zero is the positive zero). The bounds \<open>math.inf\<close> and \<open>-math.inf\<close> of the
  source are \<open>PosInf\<close> and \<open>NegInf\<close>.
\<close>

datatype elem = NegInf | Fin real | PosInf | NaN

fun elt :: "elem \<Rightarrow> elem \<Rightarrow> bool" where
  "elt NaN _ = False"
| "elt _ NaN = False"
| "elt (Fin a) (Fin b) = (a < b)"
| "elt NegInf NegInf = False"
| "elt NegInf _ = True"
| "elt PosInf _ = False"
| "elt (Fin a) PosInf = True"
| "elt (Fin a) NegInf = False"

fun ele :: "elem \<Rightarrow> elem \<Rightarrow> bool" where
  "ele NaN _ = False"
| "ele _ NaN = False"
| "ele (Fin a) (Fin b) = (a \<le> b)"
| "ele NegInf _ = True"
| "ele PosInf PosInf = True"
| "ele PosInf _ = False"
| "ele (Fin a) PosInf = True"
| "ele (Fin a) NegInf = False"

text \<open>\<open>==\<close> on elements: not-a-number equals nothing.\<close>

definition eeq :: "elem \<Rightarrow> elem \<Rightarrow> bool" where
  "eeq a b = (a = b \<and> a \<noteq> NaN)"

fun eneg :: "elem \<Rightarrow> elem" where
  "eneg NegInf = PosInf"
| "eneg PosInf = NegInf"
| "eneg (Fin a) = Fin (- a)"
| "eneg NaN = NaN"

fun eadd :: "elem \<Rightarrow> elem \<Rightarrow> elem" where
  "eadd NaN _ = NaN"
| "eadd _ NaN = NaN"
| "eadd (Fin a) (Fin b) = Fin (a + b)"
| "eadd PosInf NegInf = NaN"
| "eadd NegInf PosInf = NaN"
| "eadd PosInf _ = PosInf"
| "eadd NegInf _ = NegInf"
| "eadd (Fin a) b = b"

definition esub :: "elem \<Rightarrow> elem \<Rightarrow> elem" where
  "esub a b = eadd a (eneg b)"

text \<open>The product of an infinity and a finite number takes the sign of the number.\<close>

definition signed_inf :: "real \<Rightarrow> elem" where
  "signed_inf s = (if 0 < s then PosInf else if s < 0 then NegInf else NaN)"

fun emul :: "elem \<Rightarrow> elem \<Rightarrow> elem" where
  "emul NaN _ = NaN"
| "emul _ NaN = NaN"
| "emul (Fin a) (Fin b) = Fin (a * b)"
| "emul PosInf (Fin b) = signed_inf b"
| "emul NegInf (Fin b) = signed_inf (- b)"
| "emul (Fin a) PosInf = signed_inf a"
| "emul (Fin a) NegInf = signed_inf (- a)"
| "emul PosInf PosInf = PosInf"
| "emul NegInf NegInf = PosInf"
| "emul PosInf NegInf = NegInf"
| "emul NegInf PosInf = NegInf"

fun ediv :: "elem \<Rightarrow> elem \<Rightarrow> elem" where
  "ediv NaN _ = NaN"
| "ediv _ NaN = NaN"
| "ediv (Fin a) (Fin b) = (if b = 0 then signed_inf a else Fin (a / b))"
| "ediv (Fin a) _ = Fin 0"
| "ediv PosInf (Fin b) = (if 0 \<le> b then PosInf else NegInf)"
| "ediv NegInf (Fin b) = (if 0 \<le> b then NegInf else PosInf)"
| "ediv _ _ = NaN"

text \<open>\<open>torch.max\<close> and \<open>torch.min\<close> of two elements propagate not-a-number.\<close>

definition emax :: "elem \<Rightarrow> elem \<Rightarrow> elem" where
  "emax a b = (if a = NaN \<or> b = NaN then NaN else if ele a b then b else a)"

definition emin :: "elem \<Rightarrow> elem \<Rightarrow> elem" where
  "emin a b = (if a = NaN \<or> b = NaN then NaN else if ele a b then a else b)"

section \<open>Tensors and broadcasting\<close>

text \<open>
  A tensor is a zero-dimensional scalar or a one-dimensional vector. A binary
  elementwise operation broadcasts a scalar, and a vector of length one, against the
  other operand; two vectors of other, different lengths make the library raise.
\<close>

datatype tensor = Scalar elem | Vec "elem list"

text \<open>
  The exceptions. The module raises \<open>RuntimeError\<close> for a double-sided bound with a
  transform that is not the sigmoid and for an intersection of conflicting transforms
  (the specification's \<open>IncompatibleConstraintError\<close>); the lookup of an unregistered
  transform fails (its \<open>UnknownInverseError\<close>). The library raises on sizes that do not
  broadcast, and the interpreter on a missing attribute and on a recursion too deep.
\<close>

datatype error =
    RuntimeError_double_sided
  | RuntimeError_conflicting_transforms
  | RuntimeError_unregistered_transform
  | RuntimeError_size_mismatch
  | AttributeError_inv_transform
  | RecursionError

fun tmap :: "(elem \<Rightarrow> elem) \<Rightarrow> tensor \<Rightarrow> tensor" where
  "tmap f (Scalar a) = Scalar (f a)"
| "tmap f (Vec as) = Vec (map f as)"

fun elems :: "tensor \<Rightarrow> elem list" where
  "elems (Scalar a) = [a]"
| "elems (Vec as) = as"

fun broadcast :: "(elem \<Rightarrow> elem \<Rightarrow> 'a) \<Rightarrow> tensor \<Rightarrow> tensor \<Rightarrow> error + 'a list" where
  "broadcast f (Scalar a) t = Inr (map (f a) (elems t))"
| "broadcast f (Vec as) (Scalar b) = Inr (map (\<lambda>a. f a b) as)"
| "broadcast f (Vec as) (Vec bs) =
     (if length as = length bs then Inr (map2 f as bs)
      else if length as = 1 then Inr (map (f (hd as)) bs)
      else if length bs = 1 then Inr (map (\<lambda>a. f a (hd bs)) as)
      else Inl RuntimeError_size_mismatch)"

text \<open>The result of an arithmetic operation is a scalar only when both operands are.\<close>

fun both_scalar :: "tensor \<Rightarrow> tensor \<Rightarrow> bool" where
  "both_scalar (Scalar _) (Scalar _) = True"
| "both_scalar _ _ = False"

definition tbin :: "(elem \<Rightarrow> elem \<Rightarrow> elem) \<Rightarrow> tensor \<Rightarrow> tensor \<Rightarrow> error + tensor" where
  "tbin f s t =
     (case broadcast f s t of
        Inl e \<Rightarrow> Inl e
      | Inr xs \<Rightarrow> Inr (if both_scalar s t then Scalar (hd xs) else Vec xs))"

definition tadd :: "tensor \<Rightarrow> tensor \<Rightarrow> error + tensor" where
  "tadd = tbin eadd"

definition tsub :: "tensor \<Rightarrow> tensor \<Rightarrow> error + tensor" where
  "tsub = tbin esub"

definition tmul :: "tensor \<Rightarrow> tensor \<Rightarrow> error + tensor" where
  "tmul = tbin emul"

definition tdiv :: "tensor \<Rightarrow> tensor \<Rightarrow> error + tensor" where
  "tdiv = tbin ediv"

definition torch_max :: "tensor \<Rightarrow> tensor \<Rightarrow> error + tensor" where
  "torch_max = tbin emax"

definition torch_min :: "tensor \<Rightarrow> tensor \<Rightarrow> error + tensor" where
  "torch_min = tbin emin"

definition tneg :: "tensor \<Rightarrow> tensor" where
  "tneg = tmap eneg"

text \<open>
  \<open>torch.all(s <= t)\<close> and \<open>torch.all(s >= t)\<close>, and \<open>torch.any(t < x)\<close>,
  \<open>torch.any(t > x)\<close> for a Python number \<open>x\<close>.
\<close>

definition all_le :: "tensor \<Rightarrow> tensor \<Rightarrow> error + bool" where
  "all_le s t = (case broadcast ele s t of Inl e \<Rightarrow> Inl e | Inr bs \<Rightarrow> Inr (list_all id bs))"

definition all_ge :: "tensor \<Rightarrow> tensor \<Rightarrow> error + bool" where
  "all_ge s t =
     (case broadcast (\<lambda>a b. ele b a) s t of Inl e \<Rightarrow> Inl e | Inr bs \<Rightarrow> Inr (list_all id bs))"

definition any_lt :: "tensor \<Rightarrow> elem \<Rightarrow> bool" where
  "any_lt t x = list_ex (\<lambda>a. elt a x) (elems t)"

definition any_gt :: "tensor \<Rightarrow> elem \<Rightarrow> bool" where
  "any_gt t x = list_ex (\<lambda>a. elt x a) (elems t)"

text \<open>The masked assignment \<open>t[t == x] = v\<close>, as the value \<open>t\<close> holds afterwards.\<close>

definition masked_fill :: "tensor \<Rightarrow> elem \<Rightarrow> elem \<Rightarrow> tensor" where
  "masked_fill t x v = tmap (\<lambda>a. if eeq a x then v else a) t"

section \<open>Transform functions\<close>

text \<open>
  The transforms are function objects, compared by identity (\<open>transform != sigmoid\<close>).
  \<open>Sigmoid\<close>, \<open>Softplus\<close>, \<open>Exp\<close> and \<open>Log\<close> are the functions of the numeric library,
  \<open>Inv_sigmoid\<close> and \<open>Inv_softplus\<close> the two inverses the module imports, and
  \<open>Custom k f\<close> is any other function object, numbered \<open>k\<close> and computing \<open>f\<close>.
\<close>

datatype callable =
  Sigmoid | Softplus | Exp | Log | Inv_sigmoid | Inv_softplus | Custom nat "tensor \<Rightarrow> tensor"

definition sigmoid :: "real \<Rightarrow> real" where
  "sigmoid x = 1 / (1 + exp (- x))"

definition softplus :: "real \<Rightarrow> real" where
  "softplus x = ln (1 + exp x)"

fun sigmoid_elem :: "elem \<Rightarrow> elem" where
  "sigmoid_elem (Fin x) = Fin (sigmoid x)"
| "sigmoid_elem PosInf = Fin 1"
| "sigmoid_elem NegInf = Fin 0"
| "sigmoid_elem NaN = NaN"

fun softplus_elem :: "elem \<Rightarrow> elem" where
  "softplus_elem (Fin x) = Fin (softplus x)"
| "softplus_elem PosInf = PosInf"
| "softplus_elem NegInf = Fin 0"
| "softplus_elem NaN = NaN"

fun exp_elem :: "elem \<Rightarrow> elem" where
  "exp_elem (Fin x) = Fin (exp x)"
| "exp_elem PosInf = PosInf"
| "exp_elem NegInf = Fin 0"
| "exp_elem NaN = NaN"

fun log_elem :: "elem \<Rightarrow> elem" where
  "log_elem (Fin x) = (if 0 < x then Fin (ln x) else if x = 0 then NegInf else NaN)"
| "log_elem PosInf = PosInf"
| "log_elem _ = NaN"

text \<open>
  Modelled from the spec: \<open>inv_sigmoid\<close> and \<open>inv_softplus\<close> of \<open>utils/transforms.py\<close>,
  which is not among the sources. The spec calls them the numeric inverses of the
  sigmoid and of softplus; outside the range of the function they invert they give
  not-a-number.
\<close>

definition inv_sigmoid :: "real \<Rightarrow> real" where
  "inv_sigmoid y = ln (y / (1 - y))"

definition inv_softplus :: "real \<Rightarrow> real" where
  "inv_softplus y = ln (exp y - 1)"

fun inv_sigmoid_elem :: "elem \<Rightarrow> elem" where
  "inv_sigmoid_elem (Fin y) =
     (if 0 < y \<and> y < 1 then Fin (inv_sigmoid y)
      else if y = 0 then NegInf else if y = 1 then PosInf else NaN)"
| "inv_sigmoid_elem _ = NaN"

fun inv_softplus_elem :: "elem \<Rightarrow> elem" where
  "inv_softplus_elem (Fin y) =
     (if 0 < y then Fin (inv_softplus y) else if y = 0 then NegInf else NaN)"
| "inv_softplus_elem PosInf = PosInf"
| "inv_softplus_elem _ = NaN"

fun call :: "callable \<Rightarrow> tensor \<Rightarrow> tensor" where
  "call Sigmoid t = tmap sigmoid_elem t"
| "call Softplus t = tmap softplus_elem t"
| "call Exp t = tmap exp_elem t"
| "call Log t = tmap log_elem t"
| "call Inv_sigmoid t = tmap inv_sigmoid_elem t"
| "call Inv_softplus t = tmap inv_softplus_elem t"
| "call (Custom k f) t = f t"

text \<open>
  Modelled from the spec: \<open>_get_inv_param_transform\<close> of \<open>utils/transforms.py\<close>, which is
  not among the sources. It resolves the inverse of a transform in a static registry
  from transforms to inverses and fails when the transform is not registered. The
  registry is a parameter.
\<close>

type_synonym registry = "callable \<rightharpoonup> callable"

definition get_inv_param_transform :: "registry \<Rightarrow> callable \<Rightarrow> error + callable" where
  "get_inv_param_transform reg f =
     (case reg f of None \<Rightarrow> Inl RuntimeError_unregistered_transform | Some g \<Rightarrow> Inr g)"

section \<open>The constraint classes\<close>

text \<open>
  An instance of one of the four classes. \<open>oid\<close> is the identity of the object, which
  the comparison of bound methods in \<open>intersect\<close> reads. \<open>priv_transform\<close> is the
  attribute \<open>_transform\<close> (\<open>None\<close> for Python's \<open>None\<close>); \<open>priv_inv_transform\<close> is the
  attribute \<open>_inv_transform\<close>, \<open>None\<close> while the attribute has never been assigned.
  The two bounds are separate tensor objects, as they are when the constructor gets
  numbers.
\<close>

datatype cls = Interval | GreaterThan | Positive | LessThan

record constraint =
  oid :: nat
  cls :: cls
  lower_bound :: tensor
  upper_bound :: tensor
  priv_transform :: "callable option"
  priv_inv_transform :: "callable option"

text \<open>A bound argument is a Python number or a tensor; a number is made a tensor.\<close>

datatype bound_arg = Number elem | Tensor tensor

fun as_tensor :: "bound_arg \<Rightarrow> tensor" where
  "as_tensor (Number x) = Scalar x"
| "as_tensor (Tensor t) = t"

definition bind_err :: "error + 'a \<Rightarrow> ('a \<Rightarrow> error + 'b) \<Rightarrow> error + 'b" where
  "bind_err r f = (case r of Inl e \<Rightarrow> Inl e | Inr x \<Rightarrow> f x)"

text \<open>
  \<open>Interval.__init__\<close>, run on a new object of class \<open>k\<close>. The last argument is the
  allocator's counter: the new object gets the identity \<open>n\<close>, and the counter is
  returned advanced.
\<close>

definition Interval_init ::
  "registry \<Rightarrow> cls \<Rightarrow> bound_arg \<Rightarrow> bound_arg \<Rightarrow> callable option \<Rightarrow> callable option \<Rightarrow> nat
    \<Rightarrow> error + (constraint \<times> nat)" where
  "Interval_init reg k lower upper transform inv_transform n =
     (let lower_bound = as_tensor lower; upper_bound = as_tensor upper in
      if any_lt upper_bound PosInf \<and> any_gt lower_bound NegInf \<and> transform \<noteq> Some Sigmoid
      then Inl RuntimeError_double_sided
      else
        bind_err
          (case transform of
             None \<Rightarrow> Inr None
           | Some f \<Rightarrow>
               (case inv_transform of
                  None \<Rightarrow> bind_err (get_inv_param_transform reg f) (\<lambda>g. Inr (Some g))
                | Some _ \<Rightarrow> Inr None))
          (\<lambda>inv. Inr (\<lparr>oid = n, cls = k, lower_bound = lower_bound, upper_bound = upper_bound,
                       priv_transform = transform, priv_inv_transform = inv\<rparr>, Suc n)))"

definition GreaterThan_init ::
  "registry \<Rightarrow> cls \<Rightarrow> bound_arg \<Rightarrow> callable option \<Rightarrow> callable option \<Rightarrow> nat
    \<Rightarrow> error + (constraint \<times> nat)" where
  "GreaterThan_init reg k lower transform inv_transform n =
     Interval_init reg k lower (Number PosInf) transform inv_transform n"

definition Positive_init ::
  "registry \<Rightarrow> callable option \<Rightarrow> callable option \<Rightarrow> nat \<Rightarrow> error + (constraint \<times> nat)" where
  "Positive_init reg transform inv_transform n =
     GreaterThan_init reg Positive (Number (Fin 0)) transform inv_transform n"

definition LessThan_init ::
  "registry \<Rightarrow> bound_arg \<Rightarrow> callable option \<Rightarrow> callable option \<Rightarrow> nat
    \<Rightarrow> error + (constraint \<times> nat)" where
  "LessThan_init reg upper transform inv_transform n =
     Interval_init reg LessThan (Number NegInf) upper transform inv_transform n"

text \<open>The constructors called with their default transform and inverse.\<close>

definition new_Interval :: "registry \<Rightarrow> bound_arg \<Rightarrow> bound_arg \<Rightarrow> nat \<Rightarrow> error + (constraint \<times> nat)" where
  "new_Interval reg lower upper n =
     Interval_init reg Interval lower upper (Some Sigmoid) (Some Inv_sigmoid) n"

definition new_GreaterThan :: "registry \<Rightarrow> bound_arg \<Rightarrow> nat \<Rightarrow> error + (constraint \<times> nat)" where
  "new_GreaterThan reg lower n =
     GreaterThan_init reg GreaterThan lower (Some Softplus) (Some Inv_softplus) n"

definition new_Positive :: "registry \<Rightarrow> nat \<Rightarrow> error + (constraint \<times> nat)" where
  "new_Positive reg n = Positive_init reg (Some Softplus) (Some Inv_softplus) n"

definition new_LessThan :: "registry \<Rightarrow> bound_arg \<Rightarrow> nat \<Rightarrow> error + (constraint \<times> nat)" where
  "new_LessThan reg upper n = LessThan_init reg upper (Some Softplus) (Some Inv_softplus) n"

text \<open>The hook \<open>_apply\<close>, which moves the two bounds through \<open>fn\<close>.\<close>

definition priv_apply :: "(tensor \<Rightarrow> tensor) \<Rightarrow> constraint \<Rightarrow> constraint" where
  "priv_apply fn self = self\<lparr>lower_bound := fn (lower_bound self), upper_bound := fn (upper_bound self)\<rparr>"

definition enforced :: "constraint \<Rightarrow> bool" where
  "enforced self = (priv_transform self \<noteq> None)"

text \<open>\<open>check\<close>: Python's \<open>and\<close> does not evaluate its second operand when the first is false.\<close>

definition check :: "constraint \<Rightarrow> tensor \<Rightarrow> error + bool" where
  "check self t =
     bind_err (all_le t (upper_bound self))
       (\<lambda>below. if below then all_ge t (lower_bound self) else Inr False)"

text \<open>
  \<open>Interval.transform\<close>. The two bounds are cloned before the masked assignments, so
  the object is not changed.
\<close>

definition Interval_transform :: "constraint \<Rightarrow> tensor \<Rightarrow> error + tensor" where
  "Interval_transform self t =
     (case priv_transform self of
        None \<Rightarrow> Inr t
      | Some f \<Rightarrow>
          (let transformed_tensor = call f t;
               upper = masked_fill (upper_bound self) PosInf (Fin 1);
               lower = masked_fill (lower_bound self) NegInf (Fin 0)
           in bind_err (tmul transformed_tensor upper) (\<lambda>scaled. tadd scaled lower)))"

text \<open>
  \<open>Interval.inverse_transform\<close>. The local names \<open>upper_bound\<close> and \<open>lower_bound\<close> are
  the stored tensors themselves (there is no clone), so the two masked assignments
  write into the object. \<open>adjust_bounds_in_place\<close> is the object after them,
  \<open>inverse_affine\<close> the subtraction and the division that follow, on the stored bounds.
  The attribute \<open>_inv_transform\<close> is looked up last. The object is returned with the
  result, since an exception does not undo the assignments.
\<close>

definition adjust_bounds_in_place :: "constraint \<Rightarrow> constraint" where
  "adjust_bounds_in_place self =
     (let self1 = self\<lparr>upper_bound := masked_fill (upper_bound self) PosInf (Fin 1)\<rparr>
      in self1\<lparr>lower_bound := masked_fill (lower_bound self1) NegInf (Fin 0)\<rparr>)"

definition inverse_affine :: "constraint \<Rightarrow> tensor \<Rightarrow> error + tensor" where
  "inverse_affine self transformed_tensor =
     bind_err (tsub transformed_tensor (lower_bound self)) (\<lambda>t. tdiv t (upper_bound self))"

definition Interval_inverse_transform :: "constraint \<Rightarrow> tensor \<Rightarrow> constraint \<times> (error + tensor)" where
  "Interval_inverse_transform self transformed_tensor =
     (if \<not> enforced self then (self, Inr transformed_tensor)
      else
        (let self' = adjust_bounds_in_place self in
         (self',
          bind_err (inverse_affine self' transformed_tensor)
            (\<lambda>t. case priv_inv_transform self' of
                   None \<Rightarrow> Inl AttributeError_inv_transform
                 | Some g \<Rightarrow> Inr (call g t)))))"

text \<open>
  \<open>LessThan.transform\<close>, on an instance of \<open>LessThan\<close>. The body calls
  \<open>self.transform\<close>, which is this method again (the configured function is
  \<open>self._transform\<close>). The first argument is the number of frames the interpreter
  still allows; with none left the call raises.
\<close>

fun LessThan_transform :: "nat \<Rightarrow> constraint \<Rightarrow> tensor \<Rightarrow> error + tensor" where
  "LessThan_transform 0 self t = Inl RecursionError"
| "LessThan_transform (Suc depth) self t =
     (if \<not> enforced self then Inr t
      else bind_err (LessThan_transform depth self (tneg t))
             (\<lambda>r. tadd (tneg r) (upper_bound self)))"

definition LessThan_inverse_transform :: "constraint \<Rightarrow> tensor \<Rightarrow> constraint \<times> (error + tensor)" where
  "LessThan_inverse_transform self transformed_tensor =
     (if \<not> enforced self then (self, Inr transformed_tensor)
      else
        (self,
         bind_err (tsub transformed_tensor (upper_bound self))
           (\<lambda>t. case priv_inv_transform self of
                  None \<Rightarrow> Inl AttributeError_inv_transform
                | Some g \<Rightarrow> Inr (tneg (call g (tneg t))))))"

text \<open>The methods as an instance of class \<open>cls self\<close> resolves them.\<close>

definition transform :: "nat \<Rightarrow> constraint \<Rightarrow> tensor \<Rightarrow> error + tensor" where
  "transform depth self t =
     (if cls self = LessThan then LessThan_transform depth self t else Interval_transform self t)"

definition inverse_transform :: "constraint \<Rightarrow> tensor \<Rightarrow> constraint \<times> (error + tensor)" where
  "inverse_transform self t =
     (if cls self = LessThan then LessThan_inverse_transform self t
      else Interval_inverse_transform self t)"

text \<open>
  \<open>intersect\<close>. \<open>self.transform\<close> and \<open>other.transform\<close> are bound methods: the method
  \<open>transform\<close> of the class, bound to the object. Two bound methods are equal when
  they bind the same function to the same object. The result is built by
  \<open>Interval(lower_bound, upper_bound)\<close>, with the defaults of \<open>Interval\<close>.
\<close>

fun transform_method :: "cls \<Rightarrow> cls" where
  "transform_method LessThan = LessThan"
| "transform_method _ = Interval"

definition bound_transform :: "constraint \<Rightarrow> cls \<times> nat" where
  "bound_transform self = (transform_method (cls self), oid self)"

definition intersect :: "registry \<Rightarrow> constraint \<Rightarrow> constraint \<Rightarrow> nat \<Rightarrow> error + (constraint \<times> nat)" where
  "intersect reg self other n =
     (if bound_transform self \<noteq> bound_transform other
      then Inl RuntimeError_conflicting_transforms
      else
        bind_err (torch_max (lower_bound self) (lower_bound other)) (\<lambda>lower.
        bind_err (torch_min (upper_bound self) (upper_bound other)) (\<lambda>upper.
          new_Interval reg (Tensor lower) (Tensor upper) n)))"

section \<open>The words of the specification\<close>

text \<open>
  A bound is finite when it has an element and all its elements are finite numbers; it
  is the infinite bound \<open>x\<close> when all its elements are \<open>x\<close>.
\<close>

fun is_finite :: "elem \<Rightarrow> bool" where
  "is_finite (Fin _) = True"
| "is_finite _ = False"

definition finite_bound :: "tensor \<Rightarrow> bool" where
  "finite_bound t = (elems t \<noteq> [] \<and> list_all is_finite (elems t))"

definition infinite_bound :: "elem \<Rightarrow> tensor \<Rightarrow> bool" where
  "infinite_bound x t = list_all (\<lambda>a. a = x) (elems t)"

text \<open>
  The inverse transform as the specification describes it: the affine step divides
  the difference from the lower bound by the upper bound, both as they are stored when
  the method is called, infinities included, and the inverse function follows.
\<close>

definition spec_inverse_transform :: "constraint \<Rightarrow> tensor \<Rightarrow> error + tensor" where
  "spec_inverse_transform self transformed_tensor =
     (if \<not> enforced self then Inr transformed_tensor
      else
        bind_err (inverse_affine self transformed_tensor)
          (\<lambda>t. case priv_inv_transform self of
                 None \<Rightarrow> Inl AttributeError_inv_transform
               | Some g \<Rightarrow> Inr (call g t)))"

section \<open>Auxiliary facts\<close>

lemma tbin_Scalar_right: "tbin f t (Scalar b) = Inr (tmap (\<lambda>a. f a b) t)"
  by (cases t) (simp_all add: tbin_def)

lemma tbin_Scalar_left: "tbin f (Scalar a) t = Inr (tmap (f a) t)"
  by (cases t) (simp_all add: tbin_def)

lemma LessThan_transform_enforced:
  "enforced self \<Longrightarrow> LessThan_transform depth self t = Inl RecursionError"
  by (induction depth arbitrary: t) (simp_all add: bind_err_def)

lemma Interval_init_with_inverse:
  "Interval_init reg k lower upper tr (Some g) n =
     (if any_lt (as_tensor upper) PosInf \<and> any_gt (as_tensor lower) NegInf \<and> tr \<noteq> Some Sigmoid
      then Inl RuntimeError_double_sided
      else Inr (\<lparr>oid = n, cls = k, lower_bound = as_tensor lower, upper_bound = as_tensor upper,
                 priv_transform = tr, priv_inv_transform = None\<rparr>, Suc n))"
  by (simp add: Interval_init_def bind_err_def Let_def split: option.splits)

lemma masked_fill_Scalar: "masked_fill (Scalar a) x v = Scalar (if eeq a x then v else a)"
  by (simp add: masked_fill_def)

lemma new_Positive_eq:
  "new_Positive reg n =
     Inr (\<lparr>oid = n, cls = Positive, lower_bound = Scalar (Fin 0), upper_bound = Scalar PosInf,
            priv_transform = Some Softplus, priv_inv_transform = None\<rparr>, Suc n)"
  by (simp add: new_Positive_def Positive_init_def GreaterThan_init_def
      Interval_init_with_inverse any_lt_def)



lemma Interval_inverse_transform_no_attr:
  assumes "enforced self" "priv_inv_transform self = None"
    "lower_bound self = Scalar a" "upper_bound self = Scalar b"
  shows "snd (Interval_inverse_transform self t) = Inl AttributeError_inv_transform"
  using assms
  by (simp add: Interval_inverse_transform_def adjust_bounds_in_place_def inverse_affine_def
      masked_fill_Scalar tsub_def tdiv_def tbin_Scalar_right bind_err_def Let_def)

lemma LessThan_inverse_transform_no_attr:
  assumes "enforced self" "priv_inv_transform self = None" "upper_bound self = Scalar b"
  shows "snd (LessThan_inverse_transform self t) = Inl AttributeError_inv_transform"
  using assms
  by (simp add: LessThan_inverse_transform_def tsub_def tbin_Scalar_right bind_err_def)

lemma Interval_transform_scalar_bounds:
  assumes "lower_bound self = Scalar a" "upper_bound self = Scalar b"
  shows "\<exists>y. Interval_transform self t = Inr y"
  using assms
  by (simp add: Interval_transform_def masked_fill_Scalar tmul_def tadd_def tbin_Scalar_right
      bind_err_def Let_def split: option.splits)

lemma round_trip_no_attr:
  assumes "cls c \<noteq> LessThan" and "enforced c" and "priv_inv_transform c = None"
    and "lower_bound c = Scalar l" and "upper_bound c = Scalar u"
  shows "bind_err (transform depth c t) (\<lambda>y. snd (inverse_transform c y))
           = Inl AttributeError_inv_transform"
proof -
  obtain y where "Interval_transform c t = Inr y"
    using Interval_transform_scalar_bounds [OF assms(4,5)] by blast
  then show ?thesis
    using assms(1) Interval_inverse_transform_no_attr [OF assms(2-5)]
    by (simp add: transform_def inverse_transform_def bind_err_def)
qed

lemma finite_bound_any_lt: "finite_bound t \<Longrightarrow> any_lt t PosInf"
proof -
  assume "finite_bound t"
  then obtain a as where "elems t = a # as" and "is_finite a"
    by (cases "elems t") (auto simp: finite_bound_def)
  then show ?thesis
    by (cases a) (simp_all add: any_lt_def)
qed

lemma finite_bound_any_gt: "finite_bound t \<Longrightarrow> any_gt t NegInf"
proof -
  assume "finite_bound t"
  then obtain a as where "elems t = a # as" and "is_finite a"
    by (cases "elems t") (auto simp: finite_bound_def)
  then show ?thesis
    by (cases a) (simp_all add: any_gt_def)
qed

lemma infinite_bound_not_any_lt: "infinite_bound PosInf t \<Longrightarrow> \<not> any_lt t PosInf"
  by (auto simp: infinite_bound_def any_lt_def list_all_iff list_ex_iff)

lemma infinite_bound_not_any_gt: "infinite_bound NegInf t \<Longrightarrow> \<not> any_gt t NegInf"
  by (auto simp: infinite_bound_def any_gt_def list_all_iff list_ex_iff)

lemma tbin_error: "tbin f s t = Inl e \<Longrightarrow> e = RuntimeError_size_mismatch"
  by (auto simp: tbin_def split: sum.splits if_splits elim!: broadcast.elims)

lemma inverse_affine_error:
  "inverse_affine self t = Inl e \<Longrightarrow> e = RuntimeError_size_mismatch"
  by (auto simp: inverse_affine_def tsub_def tdiv_def tbin_def bind_err_def
      split: sum.splits if_splits elim!: broadcast.elims)

lemma inverse_transform_unset_fails:
  assumes "enforced c" and "priv_inv_transform c = None"
  shows "snd (inverse_transform c t) = Inl AttributeError_inv_transform
       \<or> snd (inverse_transform c t) = Inl RuntimeError_size_mismatch"
proof (cases "cls c = LessThan")
  case True
  show ?thesis
  proof (cases "tsub t (upper_bound c)")
    case (Inl e)
    then have "e = RuntimeError_size_mismatch"
      by (simp add: tsub_def tbin_error)
    with Inl True assms show ?thesis
      by (simp add: inverse_transform_def LessThan_inverse_transform_def bind_err_def)
  next
    case (Inr d)
    with True assms show ?thesis
      by (simp add: inverse_transform_def LessThan_inverse_transform_def bind_err_def)
  qed
next
  case False
  let ?c = "adjust_bounds_in_place c"
  have attr: "priv_inv_transform ?c = None"
    using assms(2) by (simp add: adjust_bounds_in_place_def Let_def)
  show ?thesis
  proof (cases "inverse_affine ?c t")
    case (Inl e)
    then have "e = RuntimeError_size_mismatch"
      by (rule inverse_affine_error)
    with Inl False assms show ?thesis
      by (simp add: inverse_transform_def Interval_inverse_transform_def bind_err_def Let_def)
  next
    case (Inr d)
    with False assms attr show ?thesis
      by (simp add: inverse_transform_def Interval_inverse_transform_def bind_err_def Let_def)
  qed
qed

lemma inverse_transform_unset_scalar_bounds:
  assumes "enforced c" and "priv_inv_transform c = None"
    and "lower_bound c = Scalar a" and "upper_bound c = Scalar b"
  shows "snd (inverse_transform c t) = Inl AttributeError_inv_transform"
  using assms Interval_inverse_transform_no_attr [OF assms]
    LessThan_inverse_transform_no_attr [OF assms(1,2,4)]
  by (simp add: inverse_transform_def)

lemma broadcast_Scalar_right: "broadcast f t (Scalar b) = Inr (map (\<lambda>a. f a b) (elems t))"
  by (cases t) simp_all

lemma all_le_Scalar: "all_le t (Scalar u) = Inr (list_all (\<lambda>x. ele x u) (elems t))"
  by (simp add: all_le_def broadcast_Scalar_right list_all_iff)

lemma all_ge_Scalar: "all_ge t (Scalar l) = Inr (list_all (\<lambda>x. ele l x) (elems t))"
  by (simp add: all_ge_def broadcast_Scalar_right list_all_iff)

lemma list_all_map2_nth:
  "length xs = length ys \<Longrightarrow>
     list_all id (map2 f xs ys) \<longleftrightarrow> (\<forall>i<length xs. f (xs ! i) (ys ! i))"
  by (auto simp: list_all_iff set_zip)

lemma all_le_Vec:
  "length xs = length us \<Longrightarrow>
     all_le (Vec xs) (Vec us) = Inr (\<forall>i<length xs. ele (xs ! i) (us ! i))"
  by (simp add: all_le_def list_all_map2_nth)

lemma all_ge_Vec:
  "length xs = length ls \<Longrightarrow>
     all_ge (Vec xs) (Vec ls) = Inr (\<forall>i<length xs. ele (ls ! i) (xs ! i))"
  by (simp add: all_ge_def list_all_map2_nth)

lemma ele_refl: "ele a b \<Longrightarrow> ele a a \<and> ele b b"
  by (cases a; cases b) simp_all

lemma check_scalar_bounds:
  assumes "lower_bound self = Scalar l" and "upper_bound self = Scalar u"
  shows "check self t = Inr (list_all (\<lambda>x. ele l x \<and> ele x u) (elems t))"
  using assms by (auto simp: check_def all_le_Scalar all_ge_Scalar bind_err_def list_all_iff)

lemma check_vector_bounds:
  assumes "lower_bound self = Vec ls" and "upper_bound self = Vec us"
    and "length ls = length xs" and "length us = length xs"
  shows "check self (Vec xs) = Inr (\<forall>i<length xs. ele (ls ! i) (xs ! i) \<and> ele (xs ! i) (us ! i))"
  using assms by (auto simp: check_def all_le_Vec all_ge_Vec bind_err_def)

lemma check_scalar_value:
  assumes "lower_bound self = Vec ls" and "upper_bound self = Vec us"
  shows "check self (Scalar x) = Inr (list_all (\<lambda>l. ele l x) ls \<and> list_all (\<lambda>u. ele x u) us)"
  using assms by (auto simp: check_def all_le_def all_ge_def bind_err_def list_all_iff)

section \<open>Construction\<close>

text \<open>
  Claim C5. Constructing an \<open>Interval\<close> whose lower and upper bounds are both finite
  with a transform other than the sigmoid (\<open>None\<close> included) raises the error of the
  double-sided check, whatever the inverse argument; the same construction with an
  infinite upper bound, or with a negatively infinite lower bound, and with an inverse
  supplied returns the new object. The bounds are numbers or tensors.
\<close>

theorem double_sided_needs_sigmoid:
  "tr \<noteq> Some Sigmoid \<Longrightarrow>
     (finite_bound (as_tensor lower) \<and> finite_bound (as_tensor upper) \<longrightarrow>
        Interval_init reg k lower upper tr inv_tr n = Inl RuntimeError_double_sided)
   \<and> (infinite_bound PosInf (as_tensor upper) \<or> infinite_bound NegInf (as_tensor lower) \<longrightarrow>
        (\<exists>c. Interval_init reg k lower upper tr (Some g) n = Inr (c, Suc n)))"
proof (intro conjI impI)
  assume tr: "tr \<noteq> Some Sigmoid"
  show "Interval_init reg k lower upper tr inv_tr n = Inl RuntimeError_double_sided"
    if "finite_bound (as_tensor lower) \<and> finite_bound (as_tensor upper)"
    using that tr by (simp add: Interval_init_def finite_bound_any_lt finite_bound_any_gt)
  show "\<exists>c. Interval_init reg k lower upper tr (Some g) n = Inr (c, Suc n)"
    if "infinite_bound PosInf (as_tensor upper) \<or> infinite_bound NegInf (as_tensor lower)"
    using that infinite_bound_not_any_lt infinite_bound_not_any_gt
    by (auto simp: Interval_init_with_inverse)
qed

text \<open>
  The two constructions of the claim: \<open>Interval(0, 10, transform=exp)\<close> raises and
  \<open>Interval(0, math.inf, transform=exp)\<close> returns.
\<close>

theorem double_sided_needs_sigmoid_witness:
  "Some Exp \<noteq> Some Sigmoid
   \<and> finite_bound (as_tensor (Number (Fin 0))) \<and> finite_bound (as_tensor (Number (Fin 10)))
   \<and> Interval_init Map.empty Interval (Number (Fin 0)) (Number (Fin 10)) (Some Exp)
        (Some Inv_sigmoid) 0 = Inl RuntimeError_double_sided
   \<and> infinite_bound PosInf (as_tensor (Number PosInf))
   \<and> (\<exists>c. Interval_init Map.empty Interval (Number (Fin 0)) (Number PosInf) (Some Exp)
        (Some Inv_sigmoid) 0 = Inr (c, Suc 0))"
  using double_sided_needs_sigmoid [of "Some Exp" "Number (Fin 0)" "Number (Fin 10)"
      Map.empty Interval "Some Inv_sigmoid" 0 Inv_sigmoid]
    double_sided_needs_sigmoid [of "Some Exp" "Number (Fin 0)" "Number PosInf"
      Map.empty Interval "Some Inv_sigmoid" 0 Inv_sigmoid]
  by (simp add: finite_bound_def infinite_bound_def)

text \<open>
  Claim C10. A constructor called with an inverse (\<open>inv_transform\<close> not \<open>None\<close>) leaves
  the attribute \<open>_inv_transform\<close> unassigned. \<open>GreaterThan\<close>, \<open>Positive\<close> and \<open>LessThan\<close>
  construct through \<open>Interval.__init__\<close>, so this is every variant, of any class \<open>k\<close>.
  On such a constraint, when enforced, \<open>inverse_transform\<close> returns no value for any
  tensor \<open>t\<close>: it raises at the lookup of the attribute, unless the arithmetic before
  the lookup has already raised on tensors of sizes that do not broadcast; with bounds
  given as numbers the arithmetic never raises, and the error is the failed lookup.
\<close>

theorem supplied_inverse_never_stored:
  "Interval_init reg k lower upper tr (Some g) n = Inr (c, n') \<Longrightarrow>
     priv_inv_transform c = None
   \<and> (enforced c \<longrightarrow>
        snd (inverse_transform c t) = Inl AttributeError_inv_transform
        \<or> snd (inverse_transform c t) = Inl RuntimeError_size_mismatch)
   \<and> (enforced c \<and> lower = Number a \<and> upper = Number b \<longrightarrow>
        snd (inverse_transform c t) = Inl AttributeError_inv_transform)"
proof -
  assume init: "Interval_init reg k lower upper tr (Some g) n = Inr (c, n')"
  then have c: "c = \<lparr>oid = n, cls = k, lower_bound = as_tensor lower,
      upper_bound = as_tensor upper, priv_transform = tr, priv_inv_transform = None\<rparr>"
    by (simp add: Interval_init_with_inverse split: if_splits)
  then have unset: "priv_inv_transform c = None"
    by simp
  moreover have "snd (inverse_transform c t) = Inl AttributeError_inv_transform
      \<or> snd (inverse_transform c t) = Inl RuntimeError_size_mismatch" if "enforced c"
    using that unset by (rule inverse_transform_unset_fails)
  moreover have "snd (inverse_transform c t) = Inl AttributeError_inv_transform"
    if "enforced c \<and> lower = Number a \<and> upper = Number b"
  proof -
    from that c have "lower_bound c = Scalar a" and "upper_bound c = Scalar b"
      by simp_all
    with that unset show ?thesis
      by (simp add: inverse_transform_unset_scalar_bounds)
  qed
  ultimately show ?thesis
    by blast
qed

text \<open>
  \<open>Positive()\<close>, as its constructor builds it: the inverse is not stored, the
  constraint is enforced and \<open>inverse_transform\<close> raises at the lookup.
\<close>

theorem supplied_inverse_never_stored_witness:
  "Interval_init Map.empty Positive (Number (Fin 0)) (Number PosInf) (Some Softplus)
      (Some Inv_softplus) 0
     = Inr (\<lparr>oid = 0, cls = Positive, lower_bound = Scalar (Fin 0), upper_bound = Scalar PosInf,
              priv_transform = Some Softplus, priv_inv_transform = None\<rparr>, Suc 0)
   \<and> enforced \<lparr>oid = 0, cls = Positive, lower_bound = Scalar (Fin 0), upper_bound = Scalar PosInf,
              priv_transform = Some Softplus, priv_inv_transform = None\<rparr>
   \<and> snd (inverse_transform
        \<lparr>oid = 0, cls = Positive, lower_bound = Scalar (Fin 0), upper_bound = Scalar PosInf,
              priv_transform = Some Softplus, priv_inv_transform = None\<rparr> (Scalar (Fin 1)))
     = Inl AttributeError_inv_transform"
proof -
  have init: "Interval_init Map.empty Positive (Number (Fin 0)) (Number PosInf) (Some Softplus)
      (Some Inv_softplus) 0
     = Inr (\<lparr>oid = 0, cls = Positive, lower_bound = Scalar (Fin 0), upper_bound = Scalar PosInf,
              priv_transform = Some Softplus, priv_inv_transform = None\<rparr>, Suc 0)"
    by (simp add: Interval_init_with_inverse any_lt_def)
  show ?thesis
    using init supplied_inverse_never_stored [OF init, of "Scalar (Fin 1)" "Fin 0" PosInf]
    by (simp add: enforced_def)
qed

section \<open>Intersection\<close>

text \<open>
  Claim C2. The claim: for two constraints with the same transform function,
  \<open>intersect\<close> returns a new \<open>Interval\<close> with the larger lower bound, the smaller upper
  bound and the transform of the operands, and \<open>Interval(0,10).intersect(Interval(2,20))\<close>
  returns the bounds \<open>(2,10)\<close> without raising. The code does not: the guard compares
  the bound methods \<open>self.transform\<close> and \<open>other.transform\<close>, not the attributes
  \<open>_transform\<close>, and the bound methods of two objects are never equal. The two
  intervals of the claim, built one after the other, make \<open>intersect\<close> raise.
\<close>

theorem intersect_two_Intervals_raises:
  "bind_err (new_Interval reg (Number (Fin 0)) (Number (Fin 10)) n) (\<lambda>(a, n1).
     bind_err (new_Interval reg (Number (Fin 2)) (Number (Fin 20)) n1) (\<lambda>(b, n2).
       intersect reg a b n2))
   = Inl RuntimeError_conflicting_transforms"
  by (simp add: new_Interval_def Interval_init_with_inverse bind_err_def intersect_def
      bound_transform_def)

text \<open>
  Claim C6. The claim: \<open>intersect\<close> raises if and only if the two constraints use
  different transform functions. The code raises also when they use the same one: two
  \<open>GreaterThan\<close> constraints built with the same transform \<open>f\<close> and the same inverse
  \<open>g\<close>, whatever their lower bounds, make \<open>intersect\<close> raise.
\<close>

theorem intersect_same_transform_raises:
  "bind_err (GreaterThan_init reg GreaterThan lower1 (Some f) (Some g) n) (\<lambda>(a, n1).
     bind_err (GreaterThan_init reg GreaterThan lower2 (Some f) (Some g) n1) (\<lambda>(b, n2).
       intersect reg a b n2))
   = Inl RuntimeError_conflicting_transforms"
  by (simp add: GreaterThan_init_def Interval_init_with_inverse bind_err_def intersect_def
      bound_transform_def any_lt_def)

section \<open>The transform of \<open>LessThan\<close>\<close>

text \<open>
  Claim C3. The claim: \<open>LessThan(u).transform(raw)\<close> terminates and equals
  \<open>upper_bound - softplus(-raw)\<close>. The code does not return: a \<open>LessThan\<close> built with its
  defaults is enforced, so its \<open>transform\<close> calls itself on the negated tensor until
  the interpreter has no frame left, for every bound \<open>u\<close>, every tensor \<open>t\<close> and every
  number of frames \<open>depth\<close>. Its \<open>inverse_transform\<close> returns no value either: the
  inverse was not stored, and the lookup of \<open>_inv_transform\<close> fails.
\<close>

theorem LessThan_transform_never_returns:
  "bind_err (new_LessThan reg (Number u) n) (\<lambda>(c, _). transform depth c t)
     = Inl RecursionError
   \<and> bind_err (new_LessThan reg (Number u) n) (\<lambda>(c, _). snd (inverse_transform c t))
     = Inl AttributeError_inv_transform"
  by (simp add: new_LessThan_def LessThan_init_def Interval_init_with_inverse any_gt_def
      bind_err_def transform_def LessThan_transform_enforced enforced_def
      inverse_transform_def LessThan_inverse_transform_no_attr)

section \<open>The stored bounds\<close>

text \<open>
  Claim C4. The claim: \<open>transform\<close>, \<open>inverse_transform\<close> and \<open>check\<close> leave the stored
  bounds unchanged. \<open>inverse_transform\<close> does not: on \<open>Positive()\<close>, whose upper bound
  is infinite, a call of \<open>inverse_transform\<close> on any tensor \<open>t\<close> leaves the stored upper
  bound at \<open>1\<close>, and \<open>check\<close>, which accepts \<open>5\<close> before the call, rejects it after.
\<close>

theorem inverse_transform_overwrites_upper_bound:
  "bind_err (new_Positive reg n) (\<lambda>(c, _).
     Inr (upper_bound c, upper_bound (fst (inverse_transform c t))))
     = Inr (Scalar PosInf, Scalar (Fin 1))
   \<and> bind_err (new_Positive reg n) (\<lambda>(c, _). check c (Scalar (Fin 5))) = Inr True
   \<and> bind_err (new_Positive reg n) (\<lambda>(c, _).
     check (fst (inverse_transform c t)) (Scalar (Fin 5))) = Inr False"
  by (simp add: new_Positive_eq bind_err_def inverse_transform_def
      Interval_inverse_transform_def enforced_def adjust_bounds_in_place_def masked_fill_def
      eeq_def Let_def check_scalar_bounds)

section \<open>The transform of \<open>Positive\<close>\<close>


section \<open>The round trip\<close>

text \<open>
  Claim C1. The claim: for every variant built with its default transform and
  inverse, \<open>inverse_transform(transform(raw))\<close> equals \<open>raw\<close>. The code returns no value
  at all: the constructor stores the inverse only when none is given, so on
  \<open>Interval\<close>, \<open>GreaterThan\<close> and \<open>Positive\<close> the round trip ends in the failed lookup
  of \<open>_inv_transform\<close>, and on \<open>LessThan\<close> already \<open>transform\<close> does not return. This
  holds for all bounds given as numbers and every tensor \<open>t\<close>.
\<close>

theorem default_round_trip_raises:
  "bind_err (new_Interval reg (Number a) (Number b) n)
     (\<lambda>(c, _). bind_err (transform depth c t) (\<lambda>y. snd (inverse_transform c y)))
     = Inl AttributeError_inv_transform
   \<and> bind_err (new_GreaterThan reg (Number a) n)
     (\<lambda>(c, _). bind_err (transform depth c t) (\<lambda>y. snd (inverse_transform c y)))
     = Inl AttributeError_inv_transform
   \<and> bind_err (new_Positive reg n)
     (\<lambda>(c, _). bind_err (transform depth c t) (\<lambda>y. snd (inverse_transform c y)))
     = Inl AttributeError_inv_transform
   \<and> bind_err (new_LessThan reg (Number b) n)
     (\<lambda>(c, _). bind_err (transform depth c t) (\<lambda>y. snd (inverse_transform c y)))
     = Inl RecursionError"
proof (intro conjI)
  let ?rt = "\<lambda>(c, _::nat). bind_err (transform depth c t) (\<lambda>y. snd (inverse_transform c y))"
  show "bind_err (new_Interval reg (Number a) (Number b) n) ?rt = Inl AttributeError_inv_transform"
    unfolding new_Interval_def Interval_init_with_inverse
    by (simp add: bind_err_def [of "Inr _"] round_trip_no_attr enforced_def)
  show "bind_err (new_GreaterThan reg (Number a) n) ?rt = Inl AttributeError_inv_transform"
    unfolding new_GreaterThan_def GreaterThan_init_def Interval_init_with_inverse
    by (simp add: bind_err_def [of "Inr _"] round_trip_no_attr enforced_def any_lt_def)
  show "bind_err (new_Positive reg n) ?rt = Inl AttributeError_inv_transform"
    unfolding new_Positive_eq
    by (simp add: bind_err_def [of "Inr _"] round_trip_no_attr enforced_def)
  show "bind_err (new_LessThan reg (Number b) n) ?rt = Inl RecursionError"
    unfolding new_LessThan_def LessThan_init_def Interval_init_with_inverse
    by (simp add: bind_err_def transform_def LessThan_transform_enforced enforced_def any_gt_def)
qed

section \<open>The check\<close>

text \<open>
  Claim C8. \<open>check\<close> returns true exactly when every element of the value lies between
  the bounds, both ends included: with scalar bounds for every element of a scalar or
  a vector; with vector bounds for a scalar against every pair of bounds, and for a
  vector of the same length element by element. Where the lower bound is at most the
  upper bound, \<open>check\<close> is true on the lower bound and on the upper bound.
\<close>

theorem check_inclusive:
  "(lower_bound self = Scalar l \<and> upper_bound self = Scalar u \<longrightarrow>
      check self t = Inr (list_all (\<lambda>x. ele l x \<and> ele x u) (elems t))
      \<and> (ele l u \<longrightarrow> check self (Scalar l) = Inr True \<and> check self (Scalar u) = Inr True))
   \<and> (lower_bound self = Vec ls \<and> upper_bound self = Vec us \<longrightarrow>
      check self (Scalar x) = Inr (list_all (\<lambda>l. ele l x) ls \<and> list_all (\<lambda>u. ele x u) us))
   \<and> (lower_bound self = Vec ls \<and> upper_bound self = Vec us
        \<and> length ls = length xs \<and> length us = length xs \<longrightarrow>
      check self (Vec xs)
        = Inr (\<forall>i<length xs. ele (ls ! i) (xs ! i) \<and> ele (xs ! i) (us ! i))
      \<and> ((\<forall>i<length xs. ele (ls ! i) (us ! i)) \<longrightarrow>
           check self (Vec ls) = Inr True \<and> check self (Vec us) = Inr True))"
proof (intro conjI impI)
  assume b: "lower_bound self = Scalar l \<and> upper_bound self = Scalar u"
  then show "check self t = Inr (list_all (\<lambda>x. ele l x \<and> ele x u) (elems t))"
    by (simp add: check_scalar_bounds)
  assume "ele l u"
  then have "ele l l \<and> ele u u"
    by (rule ele_refl)
  with b \<open>ele l u\<close> show "check self (Scalar l) = Inr True" and "check self (Scalar u) = Inr True"
    by (simp_all add: check_scalar_bounds)
next
  assume "lower_bound self = Vec ls \<and> upper_bound self = Vec us"
  then show "check self (Scalar x)
      = Inr (list_all (\<lambda>l. ele l x) ls \<and> list_all (\<lambda>u. ele x u) us)"
    by (simp add: check_scalar_value)
next
  assume b: "lower_bound self = Vec ls \<and> upper_bound self = Vec us
      \<and> length ls = length xs \<and> length us = length xs"
  then show "check self (Vec xs)
      = Inr (\<forall>i<length xs. ele (ls ! i) (xs ! i) \<and> ele (xs ! i) (us ! i))"
    by (simp add: check_vector_bounds)
  assume le: "\<forall>i<length xs. ele (ls ! i) (us ! i)"
  then have "\<forall>i<length xs. ele (ls ! i) (ls ! i) \<and> ele (us ! i) (us ! i)"
    using ele_refl by blast
  with b le show "check self (Vec ls) = Inr True" and "check self (Vec us) = Inr True"
    by (simp_all add: check_vector_bounds [of self ls us])
qed

text \<open>
  \<open>Interval(0, 10)\<close> rejects a vector with the element \<open>11\<close> and accepts both of its
  bounds; an interval with the vector bounds \<open>[0, 1]\<close> and \<open>[10, 2]\<close> accepts the scalar
  \<open>1\<close> and both of its bounds.
\<close>

theorem check_inclusive_witness:
  "check \<lparr>oid = 0, cls = Interval, lower_bound = Scalar (Fin 0), upper_bound = Scalar (Fin 10),
            priv_transform = Some Sigmoid, priv_inv_transform = None\<rparr> (Vec [Fin 5, Fin 11])
     = Inr False
   \<and> ele (Fin 0) (Fin 10)
   \<and> check \<lparr>oid = 0, cls = Interval, lower_bound = Scalar (Fin 0), upper_bound = Scalar (Fin 10),
            priv_transform = Some Sigmoid, priv_inv_transform = None\<rparr> (Scalar (Fin 0))
     = Inr True
   \<and> check \<lparr>oid = 0, cls = Interval, lower_bound = Scalar (Fin 0), upper_bound = Scalar (Fin 10),
            priv_transform = Some Sigmoid, priv_inv_transform = None\<rparr> (Scalar (Fin 10))
     = Inr True
   \<and> check \<lparr>oid = 1, cls = Interval, lower_bound = Vec [Fin 0, Fin 1],
            upper_bound = Vec [Fin 10, Fin 2],
            priv_transform = Some Sigmoid, priv_inv_transform = None\<rparr> (Scalar (Fin 1))
     = Inr True
   \<and> check \<lparr>oid = 1, cls = Interval, lower_bound = Vec [Fin 0, Fin 1],
            upper_bound = Vec [Fin 10, Fin 2],
            priv_transform = Some Sigmoid, priv_inv_transform = None\<rparr> (Vec [Fin 0, Fin 1])
     = Inr True
   \<and> check \<lparr>oid = 1, cls = Interval, lower_bound = Vec [Fin 0, Fin 1],
            upper_bound = Vec [Fin 10, Fin 2],
            priv_transform = Some Sigmoid, priv_inv_transform = None\<rparr> (Vec [Fin 10, Fin 2])
     = Inr True"
  using
    check_inclusive [where self = "\<lparr>oid = 0, cls = Interval, lower_bound = Scalar (Fin 0),
        upper_bound = Scalar (Fin 10), priv_transform = Some Sigmoid,
        priv_inv_transform = None\<rparr>"
      and l = "Fin 0" and u = "Fin 10" and t = "Vec [Fin 5, Fin 11]"]
    check_inclusive [where self = "\<lparr>oid = 1, cls = Interval, lower_bound = Vec [Fin 0, Fin 1],
        upper_bound = Vec [Fin 10, Fin 2], priv_transform = Some Sigmoid,
        priv_inv_transform = None\<rparr>"
      and ls = "[Fin 0, Fin 1]" and us = "[Fin 10, Fin 2]" and x = "Fin 1"
      and xs = "[Fin 0, Fin 1]"]
  by (simp add: All_less_Suc)

section \<open>The affine step of the inverse transform\<close>

text \<open>
  Claim C7. The claim: the affine step of \<open>Interval.inverse_transform\<close> uses the bounds
  as stored, infinities included, unlike \<open>Interval.transform\<close>. It does not. For
  \<open>GreaterThan(0., inv_transform=None)\<close>, whose inverse the registry resolves to the
  inverse of softplus and whose upper bound is infinite, the code maps \<open>3\<close> to
  \<open>inv_softplus 3\<close>, having divided by \<open>1\<close>; the step on the unadjusted bounds divides
  by infinity and ends in minus infinity.
\<close>

theorem inverse_affine_unadjusted_counterexample:
  "bind_err (GreaterThan_init [Softplus \<mapsto> Inv_softplus] GreaterThan (Number (Fin 0))
       (Some Softplus) None 0)
     (\<lambda>(c, _). snd (inverse_transform c (Scalar (Fin 3))))
     = Inr (Scalar (Fin (inv_softplus 3)))
   \<and> bind_err (GreaterThan_init [Softplus \<mapsto> Inv_softplus] GreaterThan (Number (Fin 0))
       (Some Softplus) None 0)
     (\<lambda>(c, _). spec_inverse_transform c (Scalar (Fin 3)))
     = Inr (Scalar NegInf)"
  by (simp add: GreaterThan_init_def Interval_init_def get_inv_param_transform_def any_lt_def
      bind_err_def inverse_transform_def Interval_inverse_transform_def enforced_def
      adjust_bounds_in_place_def masked_fill_def eeq_def inverse_affine_def tsub_def tdiv_def
      tbin_def esub_def spec_inverse_transform_def Let_def)

text \<open>
  Claim C7, as amended. The affine step of \<open>Interval.inverse_transform\<close> subtracts and
  divides by the adjusted bounds, an infinite upper bound replaced by \<open>1\<close> and an
  infinite lower bound by \<open>0\<close>: its result is the inverse transform of the
  specification on the constraint with the adjusted bounds. They are the two tensors
  \<open>Interval.transform\<close> multiplies by and adds.
\<close>

theorem inverse_affine_uses_adjusted_bounds:
  "snd (Interval_inverse_transform self y)
     = spec_inverse_transform
         (self\<lparr>upper_bound := masked_fill (upper_bound self) PosInf (Fin 1),
               lower_bound := masked_fill (lower_bound self) NegInf (Fin 0)\<rparr>) y
   \<and> Interval_transform self x
     = (case priv_transform self of
          None \<Rightarrow> Inr x
        | Some f \<Rightarrow>
            bind_err (tmul (call f x) (masked_fill (upper_bound self) PosInf (Fin 1)))
              (\<lambda>scaled. tadd scaled (masked_fill (lower_bound self) NegInf (Fin 0))))"
  by (simp add: Interval_inverse_transform_def spec_inverse_transform_def enforced_def
      adjust_bounds_in_place_def Interval_transform_def Let_def split: option.split)

end
